theory Spec2Isabelle
  imports Main
begin

section \<open>Data model\<close>

text \<open>
  The three example programs drive the teleoperation SDK through the types
  \<^verbatim>\<open>CoordType\<close>, \<^verbatim>\<open>AxisLockDefs\<close> and \<^verbatim>\<open>Robot2RobotTeleop\<close>, all declared in SDK
  headers. The examples use two coordinate frames and, of an axis-lock command, the
  frame and two arrays of three booleans.
\<close>

datatype CoordType = CD_WORLD | CD_TCP

text \<open>
  Modelled from the spec: the lock arrays of \<^verbatim>\<open>AxisLockDefs\<close> (declared in
  \<^verbatim>\<open>TeleopDefs.hpp\<close>) hold exactly three booleans, for the X, Y and Z axis. The
  examples assign them from a three-element initialiser and index them with the literals
  0, 1 and 2 only.
\<close>

datatype lock_list = LockList bool bool bool

fun lock_at :: "lock_list \<Rightarrow> nat \<Rightarrow> bool" where
  "lock_at (LockList a b c) i = (if i = 0 then a else if i = 1 then b else c)"

fun lock_upd :: "lock_list \<Rightarrow> nat \<Rightarrow> bool \<Rightarrow> lock_list" where
  "lock_upd (LockList a b c) i v =
     (if i = 0 then LockList v b c
      else if i = 1 then LockList a v c
      else if i = 2 then LockList a b v
      else LockList a b c)"

fun to_list :: "lock_list \<Rightarrow> bool list" where
  "to_list (LockList a b c) = [a, b, c]"

record AxisLockDefs =
  coord :: CoordType
  ori_axis_lock_list :: lock_list
  trans_axis_lock_list :: lock_list

text \<open>The six lock booleans of a command: translation X, Y, Z, then rotation X, Y, Z.\<close>

definition locks :: "AxisLockDefs \<Rightarrow> bool list" where
  "locks cmd = to_list (trans_axis_lock_list cmd) @ to_list (ori_axis_lock_list cmd)"

definition unlocked_count :: "AxisLockDefs \<Rightarrow> nat" where
  "unlocked_count cmd = length (filter Not (locks cmd))"

definition locked_count :: "AxisLockDefs \<Rightarrow> nat" where
  "locked_count cmd = length (filter id (locks cmd))"

subsection \<open>The SDK session as the examples see it\<close>

text \<open>
  Modelled from the spec: the class \<^verbatim>\<open>Robot2RobotTeleop\<close> belongs to the closed SDK. A
  session is represented by what the examples can observe of it during one callback: the
  answer of \<^verbatim>\<open>isOperational()\<close>, whether \<^verbatim>\<open>run()\<close> throws (a \<^verbatim>\<open>std::exception\<close> with the
  given \<^verbatim>\<open>what()\<close> text), the lock state \<^verbatim>\<open>getLocalAxisLockState\<close> hands out, and the
  calls received so far, oldest first.
\<close>

datatype call =
    IsOperational
  | Run
  | GetLocalAxisLockState
  | SetLocalAxisLockCmd AxisLockDefs

record Robot2RobotTeleop =
  operational :: bool
  run_error :: "string option"
  axis_lock_state :: AxisLockDefs
  calls :: "call list"

definition isOperational :: "Robot2RobotTeleop \<Rightarrow> bool \<times> Robot2RobotTeleop" where
  "isOperational teleop = (operational teleop, teleop\<lparr>calls := calls teleop @ [IsOperational]\<rparr>)"

definition run :: "Robot2RobotTeleop \<Rightarrow> (string + unit) \<times> Robot2RobotTeleop" where
  "run teleop =
     ((case run_error teleop of Some msg \<Rightarrow> Inl msg | None \<Rightarrow> Inr ()),
      teleop\<lparr>calls := calls teleop @ [Run]\<rparr>)"

definition getLocalAxisLockState :: "Robot2RobotTeleop \<Rightarrow> AxisLockDefs \<times> Robot2RobotTeleop" where
  "getLocalAxisLockState teleop =
     (axis_lock_state teleop, teleop\<lparr>calls := calls teleop @ [GetLocalAxisLockState]\<rparr>)"

definition setLocalAxisLockCmd :: "AxisLockDefs \<Rightarrow> Robot2RobotTeleop \<Rightarrow> Robot2RobotTeleop" where
  "setLocalAxisLockCmd cmd teleop = teleop\<lparr>calls := calls teleop @ [SetLocalAxisLockCmd cmd]\<rparr>"

text \<open>The commands pushed to a session through \<^verbatim>\<open>setLocalAxisLockCmd\<close>, oldest first.\<close>

fun pushed :: "call list \<Rightarrow> AxisLockDefs list" where
  "pushed [] = []"
| "pushed (SetLocalAxisLockCmd cmd # cs) = cmd # pushed cs"
| "pushed (_ # cs) = pushed cs"

section \<open>The timed axis-lock script (basic\_free\_space\_motion\_teleop)\<close>

text \<open>
  \<^verbatim>\<open>testAixsLock(teleop, AxisCmd, startTimeSec)\<close> reads the system clock and converts the
  time since \<^verbatim>\<open>startTimeSec\<close> to a whole number of seconds, \<^verbatim>\<open>elapsedTimeSec\<close>; the clock
  reading enters the model as that number. Every branch of the ladder overwrites the three
  fields of the command passed by reference and pushes it to the session; the function
  returns the session and the command as the caller finds them afterwards.
\<close>

definition testAixsLock ::
  "Robot2RobotTeleop \<Rightarrow> AxisLockDefs \<Rightarrow> int \<Rightarrow> Robot2RobotTeleop \<times> AxisLockDefs" where
  "testAixsLock teleop AxisCmd elapsedTimeSec =
     (let AxisCmd' =
        (if elapsedTimeSec \<le> 5 then
           AxisCmd\<lparr>coord := CD_TCP,
                   ori_axis_lock_list := LockList True True True,
                   trans_axis_lock_list := LockList False True True\<rparr>
         else if elapsedTimeSec > 5 \<and> elapsedTimeSec \<le> 10 then
           AxisCmd\<lparr>coord := CD_TCP,
                   ori_axis_lock_list := LockList True True True,
                   trans_axis_lock_list := LockList True False True\<rparr>
         else if elapsedTimeSec > 10 \<and> elapsedTimeSec \<le> 15 then
           AxisCmd\<lparr>coord := CD_TCP,
                   ori_axis_lock_list := LockList True True True,
                   trans_axis_lock_list := LockList True True False\<rparr>
         else if elapsedTimeSec > 15 \<and> elapsedTimeSec \<le> 20 then
           AxisCmd\<lparr>coord := CD_TCP,
                   ori_axis_lock_list := LockList False True True,
                   trans_axis_lock_list := LockList True True True\<rparr>
         else if elapsedTimeSec > 20 \<and> elapsedTimeSec \<le> 25 then
           AxisCmd\<lparr>coord := CD_TCP,
                   ori_axis_lock_list := LockList True False True,
                   trans_axis_lock_list := LockList True True True\<rparr>
         else if elapsedTimeSec > 25 \<and> elapsedTimeSec \<le> 30 then
           AxisCmd\<lparr>coord := CD_TCP,
                   ori_axis_lock_list := LockList True True False,
                   trans_axis_lock_list := LockList True True True\<rparr>
         else if elapsedTimeSec > 30 \<and> elapsedTimeSec \<le> 35 then
           AxisCmd\<lparr>coord := CD_TCP,
                   ori_axis_lock_list := LockList False False False,
                   trans_axis_lock_list := LockList False False False\<rparr>
         else if elapsedTimeSec > 35 \<and> elapsedTimeSec \<le> 40 then
           AxisCmd\<lparr>coord := CD_WORLD,
                   ori_axis_lock_list := LockList True True True,
                   trans_axis_lock_list := LockList False True True\<rparr>
         else if elapsedTimeSec > 40 \<and> elapsedTimeSec \<le> 45 then
           AxisCmd\<lparr>coord := CD_WORLD,
                   ori_axis_lock_list := LockList True True True,
                   trans_axis_lock_list := LockList True False True\<rparr>
         else if elapsedTimeSec > 45 \<and> elapsedTimeSec \<le> 50 then
           AxisCmd\<lparr>coord := CD_WORLD,
                   ori_axis_lock_list := LockList True True True,
                   trans_axis_lock_list := LockList True True False\<rparr>
         else if elapsedTimeSec > 50 \<and> elapsedTimeSec \<le> 55 then
           AxisCmd\<lparr>coord := CD_WORLD,
                   ori_axis_lock_list := LockList False True True,
                   trans_axis_lock_list := LockList True True True\<rparr>
         else if elapsedTimeSec > 55 \<and> elapsedTimeSec \<le> 60 then
           AxisCmd\<lparr>coord := CD_WORLD,
                   ori_axis_lock_list := LockList True False True,
                   trans_axis_lock_list := LockList True True True\<rparr>
         else if elapsedTimeSec > 60 \<and> elapsedTimeSec \<le> 65 then
           AxisCmd\<lparr>coord := CD_WORLD,
                   ori_axis_lock_list := LockList True True False,
                   trans_axis_lock_list := LockList True True True\<rparr>
         else
           AxisCmd\<lparr>coord := CD_WORLD,
                   ori_axis_lock_list := LockList False False False,
                   trans_axis_lock_list := LockList False False False\<rparr>)
      in (setLocalAxisLockCmd AxisCmd' teleop, AxisCmd'))"

text \<open>
  The command object as one invocation leaves it; it is also the command the invocation
  pushed to the session.
\<close>

definition script_cmd :: "Robot2RobotTeleop \<Rightarrow> AxisLockDefs \<Rightarrow> int \<Rightarrow> AxisLockDefs" where
  "script_cmd teleop AxisCmd elapsedTimeSec = snd (testAixsLock teleop AxisCmd elapsedTimeSec)"

text \<open>
  A command with every axis free in WORLD frame and a healthy session that has received no
  call yet: the concrete inputs of the closed examples below.
\<close>

definition free_cmd :: AxisLockDefs where
  "free_cmd = \<lparr>coord = CD_WORLD,
               ori_axis_lock_list = LockList False False False,
               trans_axis_lock_list = LockList False False False\<rparr>"

definition session0 :: Robot2RobotTeleop where
  "session0 = \<lparr>operational = True, run_error = None, axis_lock_state = free_cmd, calls = []\<rparr>"

subsection \<open>The schedule as the specification words it\<close>

text \<open>
  The specification describes the script as a table of half-open windows of whole seconds:
  \<open>[0,5)\<close> float translational X in TCP, \<open>[5,10)\<close> translational Y, \<open>[10,15)\<close>
  translational Z, \<open>[15,20)\<close>, \<open>[20,25)\<close>, \<open>[25,30)\<close> rotational X, Y, Z, \<open>[30,35)\<close> all
  unlocked in TCP, the same six single-axis windows in WORLD from 35 to 65, and all unlocked
  in WORLD from 65 on. \<open>applyTimedScript_spec\<close> is that table, written from the
  specification and not from the code, for comparison with \<open>testAixsLock\<close>.
\<close>

definition float_trans :: "CoordType \<Rightarrow> nat \<Rightarrow> AxisLockDefs" where
  "float_trans frame i =
     \<lparr>coord = frame,
      ori_axis_lock_list = LockList True True True,
      trans_axis_lock_list = lock_upd (LockList True True True) i False\<rparr>"

definition float_ori :: "CoordType \<Rightarrow> nat \<Rightarrow> AxisLockDefs" where
  "float_ori frame i =
     \<lparr>coord = frame,
      ori_axis_lock_list = lock_upd (LockList True True True) i False,
      trans_axis_lock_list = LockList True True True\<rparr>"

definition unlock_all :: "CoordType \<Rightarrow> AxisLockDefs" where
  "unlock_all frame =
     \<lparr>coord = frame,
      ori_axis_lock_list = LockList False False False,
      trans_axis_lock_list = LockList False False False\<rparr>"

definition applyTimedScript_spec :: "nat \<Rightarrow> AxisLockDefs" where
  "applyTimedScript_spec s =
     (if s < 5 then float_trans CD_TCP 0
      else if s < 10 then float_trans CD_TCP 1
      else if s < 15 then float_trans CD_TCP 2
      else if s < 20 then float_ori CD_TCP 0
      else if s < 25 then float_ori CD_TCP 1
      else if s < 30 then float_ori CD_TCP 2
      else if s < 35 then unlock_all CD_TCP
      else if s < 40 then float_trans CD_WORLD 0
      else if s < 45 then float_trans CD_WORLD 1
      else if s < 50 then float_trans CD_WORLD 2
      else if s < 55 then float_ori CD_WORLD 0
      else if s < 60 then float_ori CD_WORLD 1
      else if s < 65 then float_ori CD_WORLD 2
      else unlock_all CD_WORLD)"

section \<open>The periodic tasks (basic\_teleop, basic\_cart\_teleop)\<close>

text \<open>
  What a task writes: a line on \<^verbatim>\<open>std::cout\<close> or \<^verbatim>\<open>std::cerr\<close>, or a record of the SDK
  logger at level info, warn or error. The six status records the console task logs after
  each line carry the axis name, the frame and the lock value; their rendering through the
  SDK table \<^verbatim>\<open>CoordTypeStr\<close> is left to the logger.
\<close>

datatype printed =
    Cout string
  | Cerr string
  | LogInfo string
  | LogWarn string
  | LogError string
  | LogAxisStatus string CoordType bool

definition fault_msg :: string where
  "fault_msg = ''periodicTeleopTask: Fault occurred during teleoperation, exiting ...''"

text \<open>
  \<^verbatim>\<open>periodicTeleopTask(teleop)\<close> of \<^verbatim>\<open>basic_teleop.cpp\<close>. The global \<^verbatim>\<open>g_stop_sched\<close> is
  passed in and returned. Both the \<^verbatim>\<open>std::runtime_error\<close> thrown on a fault and an
  exception of \<^verbatim>\<open>run()\<close> reach the handler, which prints \<^verbatim>\<open>what()\<close> and a newline to
  \<^verbatim>\<open>std::cerr\<close> and sets the flag.
\<close>

definition periodicTeleopTask ::
  "Robot2RobotTeleop \<Rightarrow> bool \<Rightarrow> Robot2RobotTeleop \<times> bool \<times> printed list" where
  "periodicTeleopTask teleop g_stop_sched =
     (case isOperational teleop of
        (ok, teleop') \<Rightarrow>
          if \<not> ok then (teleop', True, [Cerr (fault_msg @ [CHR 0x0A])])
          else (case run teleop' of
                  (Inl what, teleop'') \<Rightarrow> (teleop'', True, [Cerr (what @ [CHR 0x0A])])
                | (Inr _, teleop'') \<Rightarrow> (teleop'', g_stop_sched, [])))"

text \<open>
  \<^verbatim>\<open>periodicTeleopTask(teleop1, teleop2)\<close> of \<^verbatim>\<open>basic_cart_teleop.cpp\<close>. The fault test is
  \<^verbatim>\<open>!teleop1.isOperational() || !teleop1.isOperational()\<close>: the right operand is evaluated
  only when the left one is false, and it asks \<^verbatim>\<open>teleop1\<close> again. The body names
  \<^verbatim>\<open>teleop2\<close> nowhere.
\<close>

definition periodicTeleopTask_cart ::
  "Robot2RobotTeleop \<Rightarrow> Robot2RobotTeleop \<Rightarrow> bool
     \<Rightarrow> Robot2RobotTeleop \<times> Robot2RobotTeleop \<times> bool \<times> printed list" where
  "periodicTeleopTask_cart teleop1 teleop2 g_stop_sched =
     (case isOperational teleop1 of
        (ok, t1) \<Rightarrow>
          if \<not> ok then (t1, teleop2, True, [Cerr (fault_msg @ [CHR 0x0A])])
          else (case isOperational t1 of
            (ok', t1') \<Rightarrow>
              if \<not> ok' then (t1', teleop2, True, [Cerr (fault_msg @ [CHR 0x0A])])
              else (case run t1' of
                      (Inl what, t1'') \<Rightarrow> (t1'', teleop2, True, [Cerr (what @ [CHR 0x0A])])
                    | (Inr _, t1'') \<Rightarrow> (t1'', teleop2, g_stop_sched, []))))"

text \<open>
  The scheduler that calls the task every millisecond belongs to the SDK. A run of ticks is
  modelled by the sequence of what the session answers in each: whether it is operational
  and whether \<^verbatim>\<open>run()\<close> throws. \<open>teleop_ticks\<close> calls the task once per element, whatever
  the flag holds, since neither the task nor the registration in \<^verbatim>\<open>main\<close> hands the flag to
  the scheduler.
\<close>

fun teleop_ticks ::
  "(bool \<times> string option) list \<Rightarrow> Robot2RobotTeleop \<Rightarrow> bool \<Rightarrow> Robot2RobotTeleop \<times> bool" where
  "teleop_ticks [] teleop g_stop_sched = (teleop, g_stop_sched)"
| "teleop_ticks ((ok, err) # rest) teleop g_stop_sched =
     (case periodicTeleopTask (teleop\<lparr>operational := ok, run_error := err\<rparr>) g_stop_sched of
        (teleop', g_stop_sched', _) \<Rightarrow> teleop_ticks rest teleop' g_stop_sched')"

subsection \<open>The console task\<close>

definition help_text :: "string list" where
  "help_text =
     [''>>> Simple command line GUI for teleop robot axis lock <<<'',
      ''- x: lock/unlock translational motion along X axis in World frame.'',
      ''- y: lock/unlock translational motion along Y axis in World frame.'',
      ''- z: lock/unlock translational motion along Z axis in World frame.'',
      ''- q: lock/unlock rotational motion along X axis in World frame.'',
      ''- w: lock/unlock rotational motion along Y axis in World frame.'',
      ''- e: lock/unlock rotational motion along Z axis in World frame.'',
      ''- X: lock/unlock translational motion along X axis in TCP frame.'',
      ''- Y: lock/unlock translational motion along Y axis in TCP frame.'',
      ''- Z: lock/unlock translational motion along Z axis in TCP frame.'',
      ''- Q: lock/unlock rotational motion along X axis in TCP frame.'',
      ''- W: lock/unlock rotational motion along Y axis in TCP frame.'',
      ''- E: lock/unlock rotational motion along Z axis in TCP frame.'',
      ''please input command >> '']"

definition invalid_command_msg :: string where
  "invalid_command_msg =
     ''Invalid command, please enter '' @ [CHR 0x27] @ ''m'' @ [CHR 0x27] @ '' for help ''
       @ [CHR 0x0A]"

text \<open>
  \<^verbatim>\<open>userInput[0]\<close>: the first character of the line read, and the terminating null
  character when the line is empty.
\<close>

fun first_char :: "string \<Rightarrow> char" where
  "first_char [] = CHR 0x00"
| "first_char (c # _) = c"

definition toggle_trans :: "nat \<Rightarrow> CoordType \<Rightarrow> AxisLockDefs \<Rightarrow> AxisLockDefs" where
  "toggle_trans i frame cmd =
     (cmd\<lparr>trans_axis_lock_list :=
             lock_upd (trans_axis_lock_list cmd) i (\<not> lock_at (trans_axis_lock_list cmd) i)\<rparr>)
       \<lparr>coord := frame\<rparr>"

definition toggle_ori :: "nat \<Rightarrow> CoordType \<Rightarrow> AxisLockDefs \<Rightarrow> AxisLockDefs" where
  "toggle_ori i frame cmd =
     (cmd\<lparr>ori_axis_lock_list :=
             lock_upd (ori_axis_lock_list cmd) i (\<not> lock_at (ori_axis_lock_list cmd) i)\<rparr>)
       \<lparr>coord := frame\<rparr>"

text \<open>
  The \<^verbatim>\<open>switch (userInput[0])\<close> of \<^verbatim>\<open>periodicConsoleTask\<close>: the command afterwards and
  what the case logged.
\<close>

definition key_switch :: "char \<Rightarrow> AxisLockDefs \<Rightarrow> AxisLockDefs \<times> printed list" where
  "key_switch key cmd =
     (if key = CHR ''m'' then (cmd, map LogInfo help_text)
      else if key = CHR ''x'' then (toggle_trans 0 CD_WORLD cmd, [])
      else if key = CHR ''y'' then (toggle_trans 1 CD_WORLD cmd, [])
      else if key = CHR ''z'' then (toggle_trans 2 CD_WORLD cmd, [])
      else if key = CHR ''q'' then (toggle_ori 0 CD_WORLD cmd, [])
      else if key = CHR ''w'' then (toggle_ori 1 CD_WORLD cmd, [])
      else if key = CHR ''e'' then (toggle_ori 2 CD_WORLD cmd, [])
      else if key = CHR ''X'' then (toggle_trans 0 CD_TCP cmd, [])
      else if key = CHR ''Y'' then (toggle_trans 1 CD_TCP cmd, [])
      else if key = CHR ''Z'' then (toggle_trans 2 CD_TCP cmd, [])
      else if key = CHR ''Q'' then (toggle_ori 0 CD_TCP cmd, [])
      else if key = CHR ''W'' then (toggle_ori 1 CD_TCP cmd, [])
      else if key = CHR ''E'' then (toggle_ori 2 CD_TCP cmd, [])
      else (cmd, [LogWarn invalid_command_msg]))"

definition status_lines :: "AxisLockDefs \<Rightarrow> printed list" where
  "status_lines cmd =
     [LogAxisStatus ''X'' (coord cmd) (lock_at (trans_axis_lock_list cmd) 0),
      LogAxisStatus ''Y'' (coord cmd) (lock_at (trans_axis_lock_list cmd) 1),
      LogAxisStatus ''Z'' (coord cmd) (lock_at (trans_axis_lock_list cmd) 2),
      LogAxisStatus ''Rx'' (coord cmd) (lock_at (ori_axis_lock_list cmd) 0),
      LogAxisStatus ''Ry'' (coord cmd) (lock_at (ori_axis_lock_list cmd) 1),
      LogAxisStatus ''Rz'' (coord cmd) (lock_at (ori_axis_lock_list cmd) 2)]"

text \<open>One pass through the body of the \<^verbatim>\<open>while\<close> loop, for the line \<^verbatim>\<open>getline\<close> returned.\<close>

definition console_iteration ::
  "string \<Rightarrow> AxisLockDefs \<Rightarrow> Robot2RobotTeleop
     \<Rightarrow> AxisLockDefs \<times> Robot2RobotTeleop \<times> printed list" where
  "console_iteration userInput cmd teleop =
     (case key_switch (first_char userInput) cmd of
        (cmd', logged) \<Rightarrow>
          (cmd', setLocalAxisLockCmd cmd' teleop, logged @ status_lines cmd'))"

text \<open>
  The loop \<^verbatim>\<open>while (!g_stop_sched)\<close>. The other task sets the flag and the user types the
  lines, so the loop is run on a sequence of observations, one per test of the condition:
  the value of the flag read there and the line the following \<^verbatim>\<open>getline\<close> delivers. The
  loop returns when it reads the flag set; a sequence that ends before that is a finite
  prefix of a run that is still going on.
\<close>

fun console_loop ::
  "(bool \<times> string) list \<Rightarrow> AxisLockDefs \<Rightarrow> Robot2RobotTeleop
     \<Rightarrow> AxisLockDefs \<times> Robot2RobotTeleop \<times> printed list" where
  "console_loop [] cmd teleop = (cmd, teleop, [])"
| "console_loop ((g_stop_sched, userInput) # rest) cmd teleop =
     (if g_stop_sched then (cmd, teleop, [])
      else (case console_iteration userInput cmd teleop of
              (cmd', teleop', out) \<Rightarrow>
                (case console_loop rest cmd' teleop' of
                   (cmd'', teleop'', out') \<Rightarrow> (cmd'', teleop'', out @ out'))))"

definition periodicConsoleTask ::
  "(bool \<times> string) list \<Rightarrow> Robot2RobotTeleop
     \<Rightarrow> AxisLockDefs \<times> Robot2RobotTeleop \<times> printed list" where
  "periodicConsoleTask observations teleop =
     (case getLocalAxisLockState teleop of
        (cmd, teleop') \<Rightarrow> console_loop observations cmd teleop')"

text \<open>The number of times the loop body runs: the observations before the first set flag.\<close>

definition iterations :: "(bool \<times> string) list \<Rightarrow> nat" where
  "iterations observations = length (takeWhile (\<lambda>(g_stop_sched, _). \<not> g_stop_sched) observations)"

text \<open>The twelve toggle keys, and how many of the six lock booleans two commands differ in.\<close>

definition world_keys :: "char list" where
  "world_keys = ''xyzqwe''"

definition tcp_keys :: "char list" where
  "tcp_keys = ''XYZQWE''"

definition changed_count :: "AxisLockDefs \<Rightarrow> AxisLockDefs \<Rightarrow> nat" where
  "changed_count cmd cmd' = length (filter (\<lambda>(a, b). a \<noteq> b) (zip (locks cmd) (locks cmd')))"

section \<open>The main programs\<close>

text \<open>
  \<^verbatim>\<open>main\<close> sees the command line through \<^verbatim>\<open>getopt_long_only\<close> of the C library: the
  model takes the sequence of its results before \<^verbatim>\<open>-1\<close>, each the option character
  returned and the text \<^verbatim>\<open>optarg\<close> points to. A flag is missing from an invocation when no
  result carries its character.
\<close>

definition line :: "string \<Rightarrow> string" where
  "line s = s @ [CHR 0x0A]"

text \<open>
  What \<^verbatim>\<open>main\<close> does, in order: calls into the SDK, text written, and sleeps (in seconds).
  The SDK calls name the object they go to by its variable in the source.
\<close>

datatype priority = MaxPriority | MinPriority

datatype sdk_call =
    Construct string string string string
  | Enable string
  | Init string
  | SetLocalNullSpacePosture string
  | SetRemoteNullSpacePosture string
  | SetRemoteMaxWrench string
  | NewScheduler
  | AddTask string nat priority
  | Start

datatype stmt = Call sdk_call | Print printed | SleepFor nat

definition printHelp :: "stmt list" where
  "printHelp =
     [Print (Cout (line ''Invalid program arguments'')),
      Print (Cout (line ''     -l     [necessary] serial number of local robot.'')),
      Print (Cout (line ''     -r     [necessary] serial number of remote robot.'')),
      Print (Cout (line ''     -c     [necessary] license config file path.'')),
      Print (Cout (line
        ''Usage: ./basic_teleop -l Rizon4s-123456 -r Rizon4s-654321 -c <path/to/licensCfg.json>''))]"

text \<open>
  A \<^verbatim>\<open>try\<close> block whose handler catches \<^verbatim>\<open>std::exception\<close>: the statements run in order
  until an SDK call throws. \<open>sdk\<close> tells for each call whether it throws and with which
  \<^verbatim>\<open>what()\<close> text. The result is the statements reached, the throwing call last, and the
  exception caught, if any.
\<close>

fun try_block :: "(sdk_call \<Rightarrow> string option) \<Rightarrow> stmt list \<Rightarrow> stmt list \<times> string option" where
  "try_block sdk [] = ([], None)"
| "try_block sdk (Call c # rest) =
     (case sdk c of
        Some what \<Rightarrow> ([Call c], Some what)
      | None \<Rightarrow> (case try_block sdk rest of (reached, caught) \<Rightarrow> (Call c # reached, caught)))"
| "try_block sdk (s # rest) =
     (case try_block sdk rest of (reached, caught) \<Rightarrow> (s # reached, caught))"

text \<open>
  \<^verbatim>\<open>while (!g_stop_sched) sleep_for(1s)\<close>, on the successive values read from the flag. The
  loop returns when it reads the flag set; on a sequence that ends before, \<^verbatim>\<open>main\<close> is
  still waiting.
\<close>

fun block_until_signal :: "bool list \<Rightarrow> bool \<times> stmt list" where
  "block_until_signal [] = (False, [])"
| "block_until_signal (g_stop_sched # later) =
     (if \<not> g_stop_sched
      then (case block_until_signal later of (returned, slept) \<Rightarrow> (returned, SleepFor 1 # slept))
      else (True, []))"

subsection \<open>basic\_teleop\<close>

record args =
  localSN :: string
  remoteSN :: string
  licCfgPath :: string

text \<open>
  The option loop. \<open>None\<close>: a result other than \<^verbatim>\<open>'r'\<close>, \<^verbatim>\<open>'l'\<close>, \<^verbatim>\<open>'c'\<close> reached the
  \<^verbatim>\<open>default\<close> case, which prints the help and returns 1.
\<close>

fun parse_args :: "(char \<times> string) list \<Rightarrow> args \<Rightarrow> args option" where
  "parse_args [] a = Some a"
| "parse_args ((opt, optarg) # rest) a =
     (if opt = CHR ''r'' then parse_args rest (a\<lparr>remoteSN := optarg\<rparr>)
      else if opt = CHR ''l'' then parse_args rest (a\<lparr>localSN := optarg\<rparr>)
      else if opt = CHR ''c'' then parse_args rest (a\<lparr>licCfgPath := optarg\<rparr>)
      else None)"

definition banner :: "args \<Rightarrow> stmt list" where
  "banner a =
     [Print (Cout (line ''Force feedback teleoperation example'')),
      Print (Cout (line ''Copyright (C) 2016-2024 Flexiv'')),
      Print (Cout (line (line ''All Rights Reserved.''))),
      Print (Cout (line (''Remote SN: '' @ remoteSN a))),
      Print (Cout (line (''Local SN: '' @ localSN a))),
      Print (Cout (line (''License config file: '' @ licCfgPath a)))]"

text \<open>The calls that set the session up, from its construction to the wrench limit.\<close>

definition setup_calls :: "args \<Rightarrow> sdk_call list" where
  "setup_calls a =
     [Construct ''teleop'' (localSN a) (remoteSN a) (licCfgPath a),
      Enable ''teleop'',
      Init ''teleop'',
      SetLocalNullSpacePosture ''teleop'',
      SetRemoteNullSpacePosture ''teleop'',
      SetRemoteMaxWrench ''teleop'']"

definition start_stmts :: "stmt list" where
  "start_stmts =
     [Call NewScheduler,
      SleepFor 3,
      Print (LogInfo ''Omni-Teleop will run in background ... ''),
      Call (AddTask ''HP periodic teleop'' 1 MaxPriority),
      Call (AddTask ''LP nonPeriodic console'' 1000 MinPriority),
      Call Start,
      SleepFor 1]"

text \<open>
  \<^verbatim>\<open>main\<close> of \<^verbatim>\<open>basic_teleop.cpp\<close>: the value it returns (\<open>None\<close> while it still waits for
  the flag) and what it did.
\<close>

definition main ::
  "(char \<times> string) list \<Rightarrow> (sdk_call \<Rightarrow> string option) \<Rightarrow> bool list \<Rightarrow> int option \<times> stmt list" where
  "main getopt_results sdk g_stop_reads =
     (case parse_args getopt_results \<lparr>localSN = [], remoteSN = [], licCfgPath = []\<rparr> of
        None \<Rightarrow> (Some 1, printHelp)
      | Some a \<Rightarrow>
          if localSN a = [] \<or> remoteSN a = [] \<or> licCfgPath a = [] then (Some 1, printHelp)
          else (case try_block sdk (map Call (setup_calls a) @ start_stmts) of
                  (reached, Some what) \<Rightarrow>
                    (Some 1, banner a @ reached @ [Print (LogError what)])
                | (reached, None) \<Rightarrow>
                    (case block_until_signal g_stop_reads of
                       (returned, slept) \<Rightarrow>
                         (if returned then Some 0 else None, banner a @ reached @ slept))))"

subsection \<open>basic\_cart\_teleop\<close>

record cart_args =
  localSN_left :: string
  remoteSN_left :: string
  localSN_right :: string
  remoteSN_right :: string
  cart_licCfgPath :: string

fun parse_cart_args :: "(char \<times> string) list \<Rightarrow> cart_args \<Rightarrow> cart_args option" where
  "parse_cart_args [] a = Some a"
| "parse_cart_args ((opt, optarg) # rest) a =
     (if opt = CHR ''r'' then parse_cart_args rest (a\<lparr>remoteSN_left := optarg\<rparr>)
      else if opt = CHR ''l'' then parse_cart_args rest (a\<lparr>localSN_left := optarg\<rparr>)
      else if opt = CHR ''R'' then parse_cart_args rest (a\<lparr>remoteSN_right := optarg\<rparr>)
      else if opt = CHR ''L'' then parse_cart_args rest (a\<lparr>localSN_right := optarg\<rparr>)
      else if opt = CHR ''c'' then parse_cart_args rest (a\<lparr>cart_licCfgPath := optarg\<rparr>)
      else None)"

definition cart_banner :: "cart_args \<Rightarrow> stmt list" where
  "cart_banner a =
     [Print (Cout (line ''Flexiv Omni-Teleop teleoperation example'')),
      Print (Cout (line ''Copyright (C) 2016-2024 Flexiv'')),
      Print (Cout (line (line ''All Rights Reserved.''))),
      Print (Cout (line (''left Remote SN: '' @ remoteSN_left a))),
      Print (Cout (line (''left Local SN: '' @ localSN_left a))),
      Print (Cout (line (''right Remote SN: '' @ remoteSN_right a))),
      Print (Cout (line (''right Local SN: '' @ localSN_right a))),
      Print (Cout (line (''License config file: '' @ cart_licCfgPath a)))]"

definition cart_stmts :: "cart_args \<Rightarrow> stmt list" where
  "cart_stmts a =
     [Call (Construct ''teleop_left'' (localSN_left a) (remoteSN_left a) (cart_licCfgPath a)),
      Call (Construct ''teleop_right'' (localSN_right a) (remoteSN_right a) (cart_licCfgPath a)),
      Call (Enable ''teleop_left''),
      Call (Enable ''teleop_right''),
      Call (Init ''teleop_left''),
      Call (Init ''teleop_right''),
      Call (SetLocalNullSpacePosture ''teleop_left''),
      Call (SetRemoteNullSpacePosture ''teleop_left''),
      Call (SetLocalNullSpacePosture ''teleop_right''),
      Call (SetRemoteNullSpacePosture ''teleop_right''),
      Call (SetRemoteMaxWrench ''teleop_left''),
      Call (SetRemoteMaxWrench ''teleop_right''),
      Call NewScheduler,
      SleepFor 3,
      Call (AddTask ''HP periodic teleop'' 1 MaxPriority),
      Call Start,
      Print (Cout ''Flexiv Omni-Teleop started ... ''),
      SleepFor 1]"

definition main_cart ::
  "(char \<times> string) list \<Rightarrow> (sdk_call \<Rightarrow> string option) \<Rightarrow> bool list \<Rightarrow> int option \<times> stmt list" where
  "main_cart getopt_results sdk g_stop_reads =
     (case parse_cart_args getopt_results
             \<lparr>localSN_left = [], remoteSN_left = [], localSN_right = [], remoteSN_right = [],
              cart_licCfgPath = []\<rparr> of
        None \<Rightarrow> (Some 1, printHelp)
      | Some a \<Rightarrow>
          if localSN_left a = [] \<or> remoteSN_left a = [] \<or> localSN_right a = []
             \<or> remoteSN_right a = [] \<or> cart_licCfgPath a = []
          then (Some 1, printHelp)
          else (case try_block sdk (cart_stmts a) of
                  (reached, Some what) \<Rightarrow>
                    (Some 1, cart_banner a @ reached @ [Print (Cerr what)])
                | (reached, None) \<Rightarrow>
                    (case block_until_signal g_stop_reads of
                       (returned, slept) \<Rightarrow>
                         (if returned then Some 0 else None, cart_banner a @ reached @ slept))))"

text \<open>That no result of \<^verbatim>\<open>getopt_long_only\<close> carries the option character.\<close>

definition flag_missing :: "char \<Rightarrow> (char \<times> string) list \<Rightarrow> bool" where
  "flag_missing c getopt_results = (c \<notin> set (map fst getopt_results))"

section \<open>Properties of the timed script\<close>

lemma script_cmd_shift: "script_cmd teleop AxisCmd (int n + 1) = applyTimedScript_spec n"
  by (simp add: script_cmd_def testAixsLock_def Let_def applyTimedScript_spec_def
      float_trans_def float_ori_def unlock_all_def)

lemma script_cmd_nonpos: "e \<le> 0 \<Longrightarrow> script_cmd teleop AxisCmd e = applyTimedScript_spec 0"
  by (simp add: script_cmd_def testAixsLock_def Let_def applyTimedScript_spec_def
      float_trans_def float_ori_def unlock_all_def)

lemma pushed_append: "pushed (xs @ ys) = pushed xs @ pushed ys"
  by (induction xs rule: pushed.induct) simp_all

text \<open>
  Claim C10. The command \<open>testAixsLock\<close> pushes depends on the elapsed time alone: two
  invocations with the same elapsed seconds push the same frame and the same six lock
  booleans, whatever session and whatever incoming command object they are given, and that
  command is the one call the invocation adds to the commands the session was handed.
\<close>

theorem pushed_state_depends_on_elapsed_only:
  "script_cmd teleop1 AxisCmd1 e = script_cmd teleop2 AxisCmd2 e
   \<and> pushed (calls (fst (testAixsLock teleop1 AxisCmd1 e)))
       = pushed (calls teleop1) @ [script_cmd teleop1 AxisCmd1 e]"
  by (simp add: script_cmd_def testAixsLock_def Let_def setLocalAxisLockCmd_def pushed_append)

text \<open>
  Claim C1, as stated, fails: at an elapsed time of 5 seconds the pushed command is the
  pattern of the first window (translational X floating in TCP), not the \<open>[5,10)\<close> pattern
  (translational Y floating in TCP); at 35 seconds it is the all-unlocked TCP pattern, not
  translational X floating in WORLD.
\<close>

theorem boundary_5s_not_later_window:
  "script_cmd session0 free_cmd 5 = float_trans CD_TCP 0
   \<and> script_cmd session0 free_cmd 5 \<noteq> float_trans CD_TCP 1
   \<and> script_cmd session0 free_cmd 35 = unlock_all CD_TCP
   \<and> script_cmd session0 free_cmd 35 \<noteq> float_trans CD_WORLD 0"
  by (simp add: script_cmd_def testAixsLock_def Let_def free_cmd_def
      float_trans_def float_ori_def unlock_all_def)

text \<open>
  Claim C1, amended. The tests of the ladder are \<open>a < elapsed \<and> elapsed \<le> b\<close>, so a boundary
  instant belongs to the earlier window: at every multiple of five seconds from 5 on, the
  pushed command is the one the schedule table gives for the second before (at 5 s the
  \<open>[0,5)\<close> pattern, at 35 s the \<open>[30,35)\<close> pattern, at 65 s the \<open>[60,65)\<close> pattern, and
  all unlocked in WORLD at later multiples); at 0 s it is the \<open>[0,5)\<close> pattern.
\<close>

theorem boundary_belongs_to_earlier_window:
  "script_cmd teleop AxisCmd (5 * int k + 5) = applyTimedScript_spec (5 * k + 4)
   \<and> script_cmd teleop AxisCmd 0 = applyTimedScript_spec 0"
proof
  have eq: "5 * int k + 5 = int (5 * k + 4) + 1" by simp
  show "script_cmd teleop AxisCmd (5 * int k + 5) = applyTimedScript_spec (5 * k + 4)"
    unfolding eq by (rule script_cmd_shift)
  show "script_cmd teleop AxisCmd 0 = applyTimedScript_spec 0"
    by (rule script_cmd_nonpos) simp
qed

text \<open>
  Claim C2, as stated, fails: at 32 seconds, inside \<open>[0,65)\<close>, six axes are unlocked and
  none is locked; at 65 seconds one axis is unlocked and five are locked.
\<close>

theorem one_unlocked_axis_fails_at_32s_and_65s:
  "unlocked_count (script_cmd session0 free_cmd 32) = 6
   \<and> locked_count (script_cmd session0 free_cmd 32) = 0
   \<and> unlocked_count (script_cmd session0 free_cmd 65) = 1
   \<and> locked_count (script_cmd session0 free_cmd 65) = 5"
  by (simp add: script_cmd_def testAixsLock_def Let_def free_cmd_def
      unlocked_count_def locked_count_def locks_def)

lemma one_unlocked_tcp:
  "0 \<le> e \<Longrightarrow> e \<le> 30 \<Longrightarrow>
   unlocked_count (script_cmd teleop AxisCmd e) = 1
   \<and> locked_count (script_cmd teleop AxisCmd e) = 5
   \<and> coord (script_cmd teleop AxisCmd e) = CD_TCP"
  by (simp add: script_cmd_def testAixsLock_def Let_def unlocked_count_def locked_count_def locks_def)

lemma all_unlocked_tcp:
  "30 < e \<Longrightarrow> e \<le> 35 \<Longrightarrow> script_cmd teleop AxisCmd e = unlock_all CD_TCP"
  by (simp add: script_cmd_def testAixsLock_def Let_def unlock_all_def)

lemma one_unlocked_world:
  "35 < e \<Longrightarrow> e \<le> 65 \<Longrightarrow>
   unlocked_count (script_cmd teleop AxisCmd e) = 1
   \<and> locked_count (script_cmd teleop AxisCmd e) = 5
   \<and> coord (script_cmd teleop AxisCmd e) = CD_WORLD"
  by (simp add: script_cmd_def testAixsLock_def Let_def unlocked_count_def locked_count_def locks_def)

lemma all_unlocked_world:
  "65 < e \<Longrightarrow> script_cmd teleop AxisCmd e = unlock_all CD_WORLD"
  by (simp add: script_cmd_def testAixsLock_def Let_def unlock_all_def)

lemma unlock_all_counts:
  "unlocked_count (unlock_all frame) = 6 \<and> locked_count (unlock_all frame) = 0
   \<and> coord (unlock_all frame) = frame"
  by (simp add: unlock_all_def unlocked_count_def locked_count_def locks_def)

text \<open>
  Claim C2, amended. For elapsed seconds from 0 to 30 and from 36 to 65 the pushed command
  has exactly one unlocked axis and five locked ones, in TCP frame up to 30 and in WORLD
  frame from 36 on; from 31 to 35 all six axes are unlocked in TCP frame; after 65 all six
  are unlocked in WORLD frame. From 1 second on, the command is the one the schedule table
  of the specification gives for the second before. In particular the command at 32 s is
  TCP with all six locks false, and at 100 s WORLD with all six locks false.
\<close>

theorem timed_script_windows:
  "(0 \<le> e \<and> e \<le> 30 \<longrightarrow>
      unlocked_count (script_cmd teleop AxisCmd e) = 1
      \<and> locked_count (script_cmd teleop AxisCmd e) = 5
      \<and> coord (script_cmd teleop AxisCmd e) = CD_TCP)
   \<and> (30 < e \<and> e \<le> 35 \<longrightarrow>
      unlocked_count (script_cmd teleop AxisCmd e) = 6
      \<and> locked_count (script_cmd teleop AxisCmd e) = 0
      \<and> coord (script_cmd teleop AxisCmd e) = CD_TCP)
   \<and> (35 < e \<and> e \<le> 65 \<longrightarrow>
      unlocked_count (script_cmd teleop AxisCmd e) = 1
      \<and> locked_count (script_cmd teleop AxisCmd e) = 5
      \<and> coord (script_cmd teleop AxisCmd e) = CD_WORLD)
   \<and> (65 < e \<longrightarrow>
      unlocked_count (script_cmd teleop AxisCmd e) = 6
      \<and> locked_count (script_cmd teleop AxisCmd e) = 0
      \<and> coord (script_cmd teleop AxisCmd e) = CD_WORLD)
   \<and> (1 \<le> e \<longrightarrow> script_cmd teleop AxisCmd e = applyTimedScript_spec (nat (e - 1)))
   \<and> script_cmd teleop AxisCmd 32 = unlock_all CD_TCP
   \<and> script_cmd teleop AxisCmd 100 = unlock_all CD_WORLD"
proof -
  have shift: "script_cmd teleop AxisCmd e = applyTimedScript_spec (nat (e - 1))" if "1 \<le> e"
  proof -
    from that have "e = int (nat (e - 1)) + 1" by simp
    then show ?thesis using script_cmd_shift [of teleop AxisCmd "nat (e - 1)"] by simp
  qed
  show ?thesis
    using one_unlocked_tcp [of e teleop AxisCmd] one_unlocked_world [of e teleop AxisCmd]
      all_unlocked_tcp [of e teleop AxisCmd] all_unlocked_world [of e teleop AxisCmd]
      all_unlocked_tcp [of 32 teleop AxisCmd] all_unlocked_world [of 100 teleop AxisCmd]
      shift
    by (simp add: unlock_all_counts)
qed

theorem timed_script_windows_witness:
  "((0::int) \<le> 7 \<and> (7::int) \<le> 30)
   \<and> unlocked_count (script_cmd session0 free_cmd 7) = 1
   \<and> coord (script_cmd session0 free_cmd 7) = CD_TCP
   \<and> ((30::int) < 33 \<and> (33::int) \<le> 35)
   \<and> unlocked_count (script_cmd session0 free_cmd 33) = 6
   \<and> coord (script_cmd session0 free_cmd 33) = CD_TCP
   \<and> ((35::int) < 63 \<and> (63::int) \<le> 65)
   \<and> locked_count (script_cmd session0 free_cmd 63) = 5
   \<and> coord (script_cmd session0 free_cmd 63) = CD_WORLD
   \<and> (65::int) < 70
   \<and> unlocked_count (script_cmd session0 free_cmd 70) = 6
   \<and> (1::int) \<le> 12
   \<and> script_cmd session0 free_cmd 12 = applyTimedScript_spec (nat (12 - 1))"
proof -
  have h7: "(0::int) \<le> 7 \<and> (7::int) \<le> 30" by simp
  have h33: "(30::int) < 33 \<and> (33::int) \<le> 35" by simp
  have h63: "(35::int) < 63 \<and> (63::int) \<le> 65" by simp
  have h70: "(65::int) < 70" by simp
  have h12: "(1::int) \<le> 12" by simp
  note at7 = timed_script_windows [where e = 7 and teleop = session0 and AxisCmd = free_cmd]
  note at33 = timed_script_windows [where e = 33 and teleop = session0 and AxisCmd = free_cmd]
  note at63 = timed_script_windows [where e = 63 and teleop = session0 and AxisCmd = free_cmd]
  note at70 = timed_script_windows [where e = 70 and teleop = session0 and AxisCmd = free_cmd]
  note at12 = timed_script_windows [where e = 12 and teleop = session0 and AxisCmd = free_cmd]
  have c7: "unlocked_count (script_cmd session0 free_cmd 7) = 1
      \<and> locked_count (script_cmd session0 free_cmd 7) = 5
      \<and> coord (script_cmd session0 free_cmd 7) = CD_TCP"
    using at7 [THEN conjunct1] h7 by (rule mp)
  have c33: "unlocked_count (script_cmd session0 free_cmd 33) = 6
      \<and> locked_count (script_cmd session0 free_cmd 33) = 0
      \<and> coord (script_cmd session0 free_cmd 33) = CD_TCP"
    using at33 [THEN conjunct2, THEN conjunct1] h33 by (rule mp)
  have c63: "unlocked_count (script_cmd session0 free_cmd 63) = 1
      \<and> locked_count (script_cmd session0 free_cmd 63) = 5
      \<and> coord (script_cmd session0 free_cmd 63) = CD_WORLD"
    using at63 [THEN conjunct2, THEN conjunct2, THEN conjunct1] h63 by (rule mp)
  have c70: "unlocked_count (script_cmd session0 free_cmd 70) = 6
      \<and> locked_count (script_cmd session0 free_cmd 70) = 0
      \<and> coord (script_cmd session0 free_cmd 70) = CD_WORLD"
    using at70 [THEN conjunct2, THEN conjunct2, THEN conjunct2, THEN conjunct1] h70 by (rule mp)
  have c12: "script_cmd session0 free_cmd 12 = applyTimedScript_spec (nat (12 - 1))"
    using at12 [THEN conjunct2, THEN conjunct2, THEN conjunct2, THEN conjunct2, THEN conjunct1]
      h12 by (rule mp)
  show ?thesis
    using c7 c33 c63 c70 c12 by simp
qed

section \<open>Properties of the periodic tasks\<close>

lemma changed_toggle_trans:
  "i < 3 \<Longrightarrow> changed_count cmd (toggle_trans i frame cmd) = 1"
  by (cases "trans_axis_lock_list cmd"; cases "ori_axis_lock_list cmd")
     (auto simp: changed_count_def toggle_trans_def locks_def less_Suc_eq numeral_3_eq_3)

lemma changed_toggle_ori:
  "i < 3 \<Longrightarrow> changed_count cmd (toggle_ori i frame cmd) = 1"
  by (cases "trans_axis_lock_list cmd"; cases "ori_axis_lock_list cmd")
     (auto simp: changed_count_def toggle_ori_def locks_def less_Suc_eq numeral_3_eq_3)

lemma coord_toggle:
  "coord (toggle_trans i frame cmd) = frame" "coord (toggle_ori i frame cmd) = frame"
  by (simp_all add: toggle_trans_def toggle_ori_def)

text \<open>
  Claim C3. Each of the twelve toggle keys changes exactly one of the six lock booleans of
  the current command, leaves the other five as they were, and sets the frame of the key:
  WORLD for \<open>x y z q w e\<close>, TCP for \<open>X Y Z Q W E\<close>. A key that is neither one of the twelve
  nor the help key \<open>m\<close> leaves the command unchanged and logs the invalid-command warning.
\<close>

theorem toggle_key_flips_one_lock:
  "(key \<in> set world_keys \<longrightarrow>
      changed_count cmd (fst (key_switch key cmd)) = 1
      \<and> coord (fst (key_switch key cmd)) = CD_WORLD)
   \<and> (key \<in> set tcp_keys \<longrightarrow>
      changed_count cmd (fst (key_switch key cmd)) = 1
      \<and> coord (fst (key_switch key cmd)) = CD_TCP)
   \<and> (key \<notin> set world_keys \<and> key \<notin> set tcp_keys \<and> key \<noteq> CHR ''m'' \<longrightarrow>
      key_switch key cmd = (cmd, [LogWarn invalid_command_msg]))"
  by (auto simp: key_switch_def world_keys_def tcp_keys_def changed_toggle_trans changed_toggle_ori
      coord_toggle)

theorem toggle_key_flips_one_lock_witness:
  "CHR ''x'' \<in> set world_keys
   \<and> changed_count free_cmd (fst (key_switch (CHR ''x'') free_cmd)) = 1
   \<and> coord (fst (key_switch (CHR ''x'') free_cmd)) = CD_WORLD
   \<and> CHR ''Q'' \<in> set tcp_keys
   \<and> changed_count free_cmd (fst (key_switch (CHR ''Q'') free_cmd)) = 1
   \<and> coord (fst (key_switch (CHR ''Q'') free_cmd)) = CD_TCP
   \<and> (CHR ''p'' \<notin> set world_keys \<and> CHR ''p'' \<notin> set tcp_keys \<and> CHR ''p'' \<noteq> CHR ''m'')
   \<and> key_switch (CHR ''p'') free_cmd = (free_cmd, [LogWarn invalid_command_msg])"
proof -
  have hx: "CHR ''x'' \<in> set world_keys" by (simp add: world_keys_def)
  have hq: "CHR ''Q'' \<in> set tcp_keys" by (simp add: tcp_keys_def)
  have hp: "CHR ''p'' \<notin> set world_keys \<and> CHR ''p'' \<notin> set tcp_keys \<and> CHR ''p'' \<noteq> CHR ''m''"
    by (simp add: world_keys_def tcp_keys_def)
  note atx = toggle_key_flips_one_lock [where key = "CHR ''x''" and cmd = free_cmd]
  note atq = toggle_key_flips_one_lock [where key = "CHR ''Q''" and cmd = free_cmd]
  note atp = toggle_key_flips_one_lock [where key = "CHR ''p''" and cmd = free_cmd]
  have cx: "changed_count free_cmd (fst (key_switch (CHR ''x'') free_cmd)) = 1
      \<and> coord (fst (key_switch (CHR ''x'') free_cmd)) = CD_WORLD"
    using atx [THEN conjunct1] hx by (rule mp)
  have cq: "changed_count free_cmd (fst (key_switch (CHR ''Q'') free_cmd)) = 1
      \<and> coord (fst (key_switch (CHR ''Q'') free_cmd)) = CD_TCP"
    using atq [THEN conjunct2, THEN conjunct1] hq by (rule mp)
  have cp: "key_switch (CHR ''p'') free_cmd = (free_cmd, [LogWarn invalid_command_msg])"
    using atp [THEN conjunct2, THEN conjunct2] hp by (rule mp)
  show ?thesis using hx hq hp cx cq cp by simp
qed

text \<open>
  Claim C4 fails on the dual-arm task. With the left session operational and the right
  session faulty, the tick asks the left session twice and the right session never, calls
  \<open>run()\<close> on the left session and leaves the stop flag clear.
\<close>

theorem cart_task_misses_right_fault:
  "periodicTeleopTask_cart session0 (session0\<lparr>operational := False\<rparr>) False
     = (session0\<lparr>calls := [IsOperational, IsOperational, Run]\<rparr>,
        session0\<lparr>operational := False\<rparr>, False, [])"
  by (simp add: periodicTeleopTask_cart_def isOperational_def run_def session0_def)

text \<open>
  Claim C5 fails on the dual-arm task. The tick hands the second session back as it got it,
  so it never calls \<open>run()\<close> on it; with both sessions healthy the only \<open>run()\<close> of the tick
  is the one on the first session.
\<close>

theorem cart_task_runs_left_only:
  "fst (snd (periodicTeleopTask_cart teleop1 teleop2 g_stop_sched)) = teleop2
   \<and> periodicTeleopTask_cart session0 session0 False
     = (session0\<lparr>calls := [IsOperational, IsOperational, Run]\<rparr>, session0, False, [])"
  by (simp add: periodicTeleopTask_cart_def isOperational_def run_def session0_def
      split: option.splits)

text \<open>
  Claim C6, as stated, fails: after a tick in which \<open>run()\<close> threw and the flag was set, the
  next tick on an operational session calls \<open>run()\<close> again; a tick entered with the flag
  already set calls \<open>run()\<close>.
\<close>

theorem run_called_after_stop_flag_set:
  "teleop_ticks [(True, Some ''run failed''), (True, None)] session0 False
     = (session0\<lparr>calls := [IsOperational, Run, IsOperational, Run]\<rparr>, True)
   \<and> periodicTeleopTask session0 True = (session0\<lparr>calls := [IsOperational, Run]\<rparr>, True, [])"
  by (simp add: periodicTeleopTask_def isOperational_def run_def session0_def)

lemma tick_keeps_flag: "g \<Longrightarrow> fst (snd (periodicTeleopTask teleop g))"
  by (simp add: periodicTeleopTask_def isOperational_def run_def split: option.splits)

lemma ticks_keep_flag: "g \<Longrightarrow> snd (teleop_ticks answers teleop g)"
proof (induction answers arbitrary: teleop g)
  case Nil
  then show ?case by simp
next
  case (Cons a answers)
  obtain ok err where a: "a = (ok, err)" by (cases a)
  obtain t' g' out
    where r: "periodicTeleopTask (teleop\<lparr>operational := ok, run_error := err\<rparr>) g = (t', g', out)"
    by (cases "periodicTeleopTask (teleop\<lparr>operational := ok, run_error := err\<rparr>) g")
  from Cons.prems tick_keeps_flag [of g "teleop\<lparr>operational := ok, run_error := err\<rparr>"] r
  have "g'" by simp
  then show ?case using Cons.IH [of g' t'] a r by simp
qed

text \<open>
  Claim C6, amended. When \<open>run()\<close> throws in a tick, that tick sets the stop flag (and
  prints the message), and once the flag is set no sequence of ticks clears it. The task
  does not read the flag: whatever it holds, a tick asks \<open>isOperational()\<close> first and
  calls \<open>run()\<close> exactly when the answer is true.
\<close>

theorem run_error_sets_stop_flag:
  "(operational teleop \<and> run_error teleop = Some what \<longrightarrow>
      periodicTeleopTask teleop g_stop_sched
        = (teleop\<lparr>calls := calls teleop @ [IsOperational, Run]\<rparr>, True, [Cerr (what @ [CHR 0x0A])]))
   \<and> (g_stop_sched \<longrightarrow> snd (teleop_ticks answers teleop g_stop_sched))
   \<and> calls (fst (periodicTeleopTask teleop g_stop_sched))
       = calls teleop @ (if operational teleop then [IsOperational, Run] else [IsOperational])"
  using ticks_keep_flag [of g_stop_sched answers teleop]
  by (simp add: periodicTeleopTask_def isOperational_def run_def split: option.splits)

theorem run_error_sets_stop_flag_witness:
  "(operational (session0\<lparr>run_error := Some ''run failed''\<rparr>)
    \<and> run_error (session0\<lparr>run_error := Some ''run failed''\<rparr>) = Some ''run failed'')
   \<and> periodicTeleopTask (session0\<lparr>run_error := Some ''run failed''\<rparr>) False
       = (session0\<lparr>run_error := Some ''run failed'', calls := [IsOperational, Run]\<rparr>, True,
          [Cerr (''run failed'' @ [CHR 0x0A])])
   \<and> snd (teleop_ticks [(True, None)] session0 True)"
proof -
  have h: "operational (session0\<lparr>run_error := Some ''run failed''\<rparr>)
    \<and> run_error (session0\<lparr>run_error := Some ''run failed''\<rparr>) = Some ''run failed''"
    by (simp add: session0_def)
  note set_flag = run_error_sets_stop_flag
      [where teleop = "session0\<lparr>run_error := Some ''run failed''\<rparr>"
         and what = "''run failed''" and g_stop_sched = False and answers = "[]", THEN conjunct1]
  note keep_flag = run_error_sets_stop_flag
      [where teleop = session0 and what = "[]" and g_stop_sched = True
         and answers = "[(True, None)]", THEN conjunct2, THEN conjunct1]
  have a: "periodicTeleopTask (session0\<lparr>run_error := Some ''run failed''\<rparr>) False
       = ((session0\<lparr>run_error := Some ''run failed''\<rparr>)
             \<lparr>calls := calls (session0\<lparr>run_error := Some ''run failed''\<rparr>) @ [IsOperational, Run]\<rparr>,
          True, [Cerr (''run failed'' @ [CHR 0x0A])])"
    using set_flag h by (rule mp)
  have b: "snd (teleop_ticks [(True, None)] session0 True)"
    using keep_flag by simp
  show ?thesis using h a b by (simp add: session0_def)
qed

lemma iteration_pushes:
  "console_iteration userInput cmd teleop = (cmd', teleop', out) \<Longrightarrow>
   cmd' = fst (key_switch (first_char userInput) cmd)
   \<and> calls teleop' = calls teleop @ [SetLocalAxisLockCmd cmd']"
  by (auto simp: console_iteration_def setLocalAxisLockCmd_def split: prod.splits)

lemma loop_pushes:
  "length (pushed (calls (fst (snd (console_loop obs cmd teleop)))))
     = length (pushed (calls teleop)) + iterations obs"
proof (induction obs arbitrary: cmd teleop)
  case Nil
  then show ?case by (simp add: iterations_def)
next
  case (Cons ob obs)
  obtain g userInput where ob: "ob = (g, userInput)" by (cases ob)
  show ?case
  proof (cases g)
    case True
    then show ?thesis using ob by (simp add: iterations_def)
  next
    case False
    obtain cmd' teleop' out where it: "console_iteration userInput cmd teleop = (cmd', teleop', out)"
      by (cases "console_iteration userInput cmd teleop")
    from iteration_pushes [OF it]
    have "length (pushed (calls teleop')) = length (pushed (calls teleop)) + 1"
      by (simp add: pushed_append)
    then show ?thesis using Cons.IH [of cmd' teleop'] ob False it
      by (auto simp: iterations_def split: prod.splits)
  qed
qed

text \<open>
  Claim C9. Whatever line the console task reads (a toggle key, the help key \<open>m\<close>, which
  leaves the command as it is, an unrecognised key or an empty line), the pass through the
  loop body makes exactly one call of the session, \<open>setLocalAxisLockCmd\<close>, after the key
  switch and with the command the switch left; over a run of the loop the number of
  commands pushed is the number of lines processed.
\<close>

theorem one_push_per_console_line:
  "fst (console_iteration userInput cmd teleop) = fst (key_switch (first_char userInput) cmd)
   \<and> calls (fst (snd (console_iteration userInput cmd teleop)))
       = calls teleop @ [SetLocalAxisLockCmd (fst (key_switch (first_char userInput) cmd))]
   \<and> fst (key_switch (CHR ''m'') cmd) = cmd
   \<and> length (pushed (calls (fst (snd (console_loop observations cmd teleop)))))
       = length (pushed (calls teleop)) + iterations observations"
  using loop_pushes [of observations cmd teleop]
  by (simp add: console_iteration_def setLocalAxisLockCmd_def key_switch_def split: prod.splits)

section \<open>Properties of the main programs\<close>

lemma parse_args_missing:
  "parse_args rs a = Some a' \<Longrightarrow>
   (flag_missing (CHR ''l'') rs \<longrightarrow> localSN a' = localSN a)
   \<and> (flag_missing (CHR ''r'') rs \<longrightarrow> remoteSN a' = remoteSN a)
   \<and> (flag_missing (CHR ''c'') rs \<longrightarrow> licCfgPath a' = licCfgPath a)"
proof (induction rs arbitrary: a)
  case Nil
  then show ?case by simp
next
  case (Cons r rs)
  obtain opt optarg where r: "r = (opt, optarg)" by (cases r)
  show ?case using Cons.prems Cons.IH r
    by (auto simp: flag_missing_def split: if_splits)
qed

lemma parse_cart_args_missing:
  "parse_cart_args rs a = Some a' \<Longrightarrow>
   (flag_missing (CHR ''l'') rs \<longrightarrow> localSN_left a' = localSN_left a)
   \<and> (flag_missing (CHR ''r'') rs \<longrightarrow> remoteSN_left a' = remoteSN_left a)
   \<and> (flag_missing (CHR ''L'') rs \<longrightarrow> localSN_right a' = localSN_right a)
   \<and> (flag_missing (CHR ''R'') rs \<longrightarrow> remoteSN_right a' = remoteSN_right a)
   \<and> (flag_missing (CHR ''c'') rs \<longrightarrow> cart_licCfgPath a' = cart_licCfgPath a)"
proof (induction rs arbitrary: a)
  case Nil
  then show ?case by simp
next
  case (Cons r rs)
  obtain opt optarg where r: "r = (opt, optarg)" by (cases r)
  show ?case using Cons.prems Cons.IH r
    by (auto simp: flag_missing_def split: if_splits)
qed

lemma main_missing:
  assumes "flag_missing (CHR ''l'') rs \<or> flag_missing (CHR ''r'') rs \<or> flag_missing (CHR ''c'') rs"
  shows "main rs sdk reads = (Some 1, printHelp)"
proof (cases "parse_args rs \<lparr>localSN = [], remoteSN = [], licCfgPath = []\<rparr>")
  case None
  then show ?thesis by (simp add: main_def)
next
  case (Some a)
  from parse_args_missing [OF Some] assms
  have "localSN a = [] \<or> remoteSN a = [] \<or> licCfgPath a = []" by auto
  with Some show ?thesis by (simp add: main_def)
qed

lemma main_cart_missing:
  assumes "flag_missing (CHR ''l'') rs \<or> flag_missing (CHR ''r'') rs
           \<or> flag_missing (CHR ''L'') rs \<or> flag_missing (CHR ''R'') rs
           \<or> flag_missing (CHR ''c'') rs"
  shows "main_cart rs sdk reads = (Some 1, printHelp)"
proof (cases "parse_cart_args rs
         \<lparr>localSN_left = [], remoteSN_left = [], localSN_right = [], remoteSN_right = [],
          cart_licCfgPath = []\<rparr>")
  case None
  then show ?thesis by (simp add: main_cart_def)
next
  case (Some a)
  from parse_cart_args_missing [OF Some] assms
  have "localSN_left a = [] \<or> remoteSN_left a = [] \<or> localSN_right a = []
        \<or> remoteSN_right a = [] \<or> cart_licCfgPath a = []" by auto
  with Some show ?thesis by (simp add: main_cart_def)
qed

text \<open>
  Claim C7. When one of the flags \<open>-l\<close>, \<open>-r\<close>, \<open>-c\<close> is missing from the command line,
  \<open>main\<close> of \<open>basic_teleop\<close> writes the five lines of the usage message to \<^verbatim>\<open>std::cout\<close>
  (the complaint about the arguments, one line for each of the three flags, and the usage
  line), does nothing else and returns 1; so does \<open>main\<close> of the dual-arm example when one
  of \<open>-l\<close>, \<open>-r\<close>, \<open>-L\<close>, \<open>-R\<close>, \<open>-c\<close> is missing.
\<close>

theorem missing_flag_prints_usage_and_exits_1:
  "(flag_missing (CHR ''l'') rs \<or> flag_missing (CHR ''r'') rs \<or> flag_missing (CHR ''c'') rs
      \<longrightarrow> main rs sdk reads
          = (Some 1,
           [Print (Cout (''Invalid program arguments'' @ [CHR 0x0A])),
            Print (Cout (''     -l     [necessary] serial number of local robot.'' @ [CHR 0x0A])),
            Print (Cout (''     -r     [necessary] serial number of remote robot.'' @ [CHR 0x0A])),
            Print (Cout (''     -c     [necessary] license config file path.'' @ [CHR 0x0A])),
            Print (Cout
              (''Usage: ./basic_teleop -l Rizon4s-123456 -r Rizon4s-654321 -c <path/to/licensCfg.json>''
               @ [CHR 0x0A]))]))
   \<and> (flag_missing (CHR ''l'') rs \<or> flag_missing (CHR ''r'') rs
       \<or> flag_missing (CHR ''L'') rs \<or> flag_missing (CHR ''R'') rs
       \<or> flag_missing (CHR ''c'') rs
      \<longrightarrow> main_cart rs sdk reads
          = (Some 1,
           [Print (Cout (''Invalid program arguments'' @ [CHR 0x0A])),
            Print (Cout (''     -l     [necessary] serial number of local robot.'' @ [CHR 0x0A])),
            Print (Cout (''     -r     [necessary] serial number of remote robot.'' @ [CHR 0x0A])),
            Print (Cout (''     -c     [necessary] license config file path.'' @ [CHR 0x0A])),
            Print (Cout
              (''Usage: ./basic_teleop -l Rizon4s-123456 -r Rizon4s-654321 -c <path/to/licensCfg.json>''
               @ [CHR 0x0A]))]))"
proof (intro conjI impI)
  assume "flag_missing (CHR ''l'') rs \<or> flag_missing (CHR ''r'') rs \<or> flag_missing (CHR ''c'') rs"
  then have "main rs sdk reads = (Some 1, printHelp)"
    by (rule main_missing)
  then show "main rs sdk reads
          = (Some 1,
           [Print (Cout (''Invalid program arguments'' @ [CHR 0x0A])),
            Print (Cout (''     -l     [necessary] serial number of local robot.'' @ [CHR 0x0A])),
            Print (Cout (''     -r     [necessary] serial number of remote robot.'' @ [CHR 0x0A])),
            Print (Cout (''     -c     [necessary] license config file path.'' @ [CHR 0x0A])),
            Print (Cout
              (''Usage: ./basic_teleop -l Rizon4s-123456 -r Rizon4s-654321 -c <path/to/licensCfg.json>''
               @ [CHR 0x0A]))])"
    by (simp add: printHelp_def line_def)
next
  assume "flag_missing (CHR ''l'') rs \<or> flag_missing (CHR ''r'') rs
       \<or> flag_missing (CHR ''L'') rs \<or> flag_missing (CHR ''R'') rs
       \<or> flag_missing (CHR ''c'') rs"
  then have "main_cart rs sdk reads = (Some 1, printHelp)"
    by (rule main_cart_missing)
  then show "main_cart rs sdk reads
          = (Some 1,
           [Print (Cout (''Invalid program arguments'' @ [CHR 0x0A])),
            Print (Cout (''     -l     [necessary] serial number of local robot.'' @ [CHR 0x0A])),
            Print (Cout (''     -r     [necessary] serial number of remote robot.'' @ [CHR 0x0A])),
            Print (Cout (''     -c     [necessary] license config file path.'' @ [CHR 0x0A])),
            Print (Cout
              (''Usage: ./basic_teleop -l Rizon4s-123456 -r Rizon4s-654321 -c <path/to/licensCfg.json>''
               @ [CHR 0x0A]))])"
    by (simp add: printHelp_def line_def)
qed

theorem missing_flag_prints_usage_and_exits_1_witness:
  "flag_missing (CHR ''c'') [(CHR ''l'', ''Rizon4s-123456''), (CHR ''r'', ''Rizon4s-654321'')]
   \<and> main [(CHR ''l'', ''Rizon4s-123456''), (CHR ''r'', ''Rizon4s-654321'')] (\<lambda>c. None) []
       = (Some 1,
           [Print (Cout (''Invalid program arguments'' @ [CHR 0x0A])),
            Print (Cout (''     -l     [necessary] serial number of local robot.'' @ [CHR 0x0A])),
            Print (Cout (''     -r     [necessary] serial number of remote robot.'' @ [CHR 0x0A])),
            Print (Cout (''     -c     [necessary] license config file path.'' @ [CHR 0x0A])),
            Print (Cout
              (''Usage: ./basic_teleop -l Rizon4s-123456 -r Rizon4s-654321 -c <path/to/licensCfg.json>''
               @ [CHR 0x0A]))])
   \<and> main_cart [(CHR ''l'', ''Rizon4s-123456''), (CHR ''r'', ''Rizon4s-654321'')] (\<lambda>c. None) []
       = (Some 1,
           [Print (Cout (''Invalid program arguments'' @ [CHR 0x0A])),
            Print (Cout (''     -l     [necessary] serial number of local robot.'' @ [CHR 0x0A])),
            Print (Cout (''     -r     [necessary] serial number of remote robot.'' @ [CHR 0x0A])),
            Print (Cout (''     -c     [necessary] license config file path.'' @ [CHR 0x0A])),
            Print (Cout
              (''Usage: ./basic_teleop -l Rizon4s-123456 -r Rizon4s-654321 -c <path/to/licensCfg.json>''
               @ [CHR 0x0A]))])"
proof -
  have h: "flag_missing (CHR ''c'') [(CHR ''l'', ''Rizon4s-123456''), (CHR ''r'', ''Rizon4s-654321'')]"
    by (simp add: flag_missing_def)
  then have h1: "flag_missing (CHR ''l'') [(CHR ''l'', ''Rizon4s-123456''), (CHR ''r'', ''Rizon4s-654321'')] \<or> flag_missing (CHR ''r'') [(CHR ''l'', ''Rizon4s-123456''), (CHR ''r'', ''Rizon4s-654321'')]
      \<or> flag_missing (CHR ''c'') [(CHR ''l'', ''Rizon4s-123456''), (CHR ''r'', ''Rizon4s-654321'')]"
    by simp
  from h have h2: "flag_missing (CHR ''l'') [(CHR ''l'', ''Rizon4s-123456''), (CHR ''r'', ''Rizon4s-654321'')] \<or> flag_missing (CHR ''r'') [(CHR ''l'', ''Rizon4s-123456''), (CHR ''r'', ''Rizon4s-654321'')]
      \<or> flag_missing (CHR ''L'') [(CHR ''l'', ''Rizon4s-123456''), (CHR ''r'', ''Rizon4s-654321'')] \<or> flag_missing (CHR ''R'') [(CHR ''l'', ''Rizon4s-123456''), (CHR ''r'', ''Rizon4s-654321'')]
      \<or> flag_missing (CHR ''c'') [(CHR ''l'', ''Rizon4s-123456''), (CHR ''r'', ''Rizon4s-654321'')]"
    by simp
  note inst = missing_flag_prints_usage_and_exits_1
      [where rs = "[(CHR ''l'', ''Rizon4s-123456''), (CHR ''r'', ''Rizon4s-654321'')]" and sdk = "\<lambda>c. None" and reads = "[]"]
  have m: "main [(CHR ''l'', ''Rizon4s-123456''), (CHR ''r'', ''Rizon4s-654321'')] (\<lambda>c. None) []
       = (Some 1,
           [Print (Cout (''Invalid program arguments'' @ [CHR 0x0A])),
            Print (Cout (''     -l     [necessary] serial number of local robot.'' @ [CHR 0x0A])),
            Print (Cout (''     -r     [necessary] serial number of remote robot.'' @ [CHR 0x0A])),
            Print (Cout (''     -c     [necessary] license config file path.'' @ [CHR 0x0A])),
            Print (Cout
              (''Usage: ./basic_teleop -l Rizon4s-123456 -r Rizon4s-654321 -c <path/to/licensCfg.json>''
               @ [CHR 0x0A]))])"
    using inst [THEN conjunct1] h1 by (rule mp)
  have mc: "main_cart [(CHR ''l'', ''Rizon4s-123456''), (CHR ''r'', ''Rizon4s-654321'')] (\<lambda>c. None) []
       = (Some 1,
           [Print (Cout (''Invalid program arguments'' @ [CHR 0x0A])),
            Print (Cout (''     -l     [necessary] serial number of local robot.'' @ [CHR 0x0A])),
            Print (Cout (''     -r     [necessary] serial number of remote robot.'' @ [CHR 0x0A])),
            Print (Cout (''     -c     [necessary] license config file path.'' @ [CHR 0x0A])),
            Print (Cout
              (''Usage: ./basic_teleop -l Rizon4s-123456 -r Rizon4s-654321 -c <path/to/licensCfg.json>''
               @ [CHR 0x0A]))])"
    using inst [THEN conjunct2] h2 by (rule mp)
  show ?thesis using h m mc by (intro conjI)
qed

lemma try_block_throws:
  "\<forall>b \<in> set before. sdk b = None \<Longrightarrow> sdk c = Some what \<Longrightarrow>
   try_block sdk (map Call (before @ c # after) @ following) = (map Call (before @ [c]), Some what)"
  by (induction before) simp_all

lemma console_invalid_key:
  "first_char userInput \<notin> set world_keys \<Longrightarrow> first_char userInput \<notin> set tcp_keys \<Longrightarrow>
   first_char userInput \<noteq> CHR ''m'' \<Longrightarrow>
   console_iteration userInput cmd teleop
     = (cmd, setLocalAxisLockCmd cmd teleop, LogWarn invalid_command_msg # status_lines cmd)"
  by (simp add: console_iteration_def key_switch_def world_keys_def tcp_keys_def)

text \<open>
  Claim C8. When the command line is complete and a call of the setup phase (the
  construction of the session, \<open>enable()\<close>, \<open>init()\<close>, the two posture calls or the wrench
  limit) throws, \<open>main\<close> makes no further call, logs the message of the exception at level
  error and returns 1. In the console task a line whose first character is not a
  recognised key logs the invalid-command warning, pushes the unchanged command, and the
  loop goes on with the following lines.
\<close>

theorem setup_error_aborts_invalid_key_continues:
  "(parse_args rs \<lparr>localSN = [], remoteSN = [], licCfgPath = []\<rparr> = Some a
    \<and> localSN a \<noteq> [] \<and> remoteSN a \<noteq> [] \<and> licCfgPath a \<noteq> []
    \<and> setup_calls a = before @ c # after
    \<and> (\<forall>b \<in> set before. sdk b = None) \<and> sdk c = Some what
    \<longrightarrow> main rs sdk reads
          = (Some 1, banner a @ map Call (before @ [c]) @ [Print (LogError what)]))
   \<and> (first_char userInput \<notin> set world_keys \<and> first_char userInput \<notin> set tcp_keys
      \<and> first_char userInput \<noteq> CHR ''m''
    \<longrightarrow> console_loop ((False, userInput) # rest) cmd teleop
          = (case console_loop rest cmd (setLocalAxisLockCmd cmd teleop) of
               (cmd', teleop', out) \<Rightarrow>
                 (cmd', teleop', LogWarn invalid_command_msg # status_lines cmd @ out)))"
proof (intro conjI impI)
  assume h: "parse_args rs \<lparr>localSN = [], remoteSN = [], licCfgPath = []\<rparr> = Some a
    \<and> localSN a \<noteq> [] \<and> remoteSN a \<noteq> [] \<and> licCfgPath a \<noteq> []
    \<and> setup_calls a = before @ c # after
    \<and> (\<forall>b \<in> set before. sdk b = None) \<and> sdk c = Some what"
  then have "try_block sdk (map Call (setup_calls a) @ start_stmts)
      = (map Call (before @ [c]), Some what)"
    using try_block_throws [of before sdk c what after start_stmts] by simp
  with h show "main rs sdk reads
          = (Some 1, banner a @ map Call (before @ [c]) @ [Print (LogError what)])"
    by (simp add: main_def)
next
  assume "first_char userInput \<notin> set world_keys \<and> first_char userInput \<notin> set tcp_keys
      \<and> first_char userInput \<noteq> CHR ''m''"
  then have "console_iteration userInput cmd teleop
     = (cmd, setLocalAxisLockCmd cmd teleop, LogWarn invalid_command_msg # status_lines cmd)"
    by (simp add: console_invalid_key)
  then show "console_loop ((False, userInput) # rest) cmd teleop
          = (case console_loop rest cmd (setLocalAxisLockCmd cmd teleop) of
               (cmd', teleop', out) \<Rightarrow>
                 (cmd', teleop', LogWarn invalid_command_msg # status_lines cmd @ out))"
    by (simp split: prod.splits)
qed

theorem setup_error_aborts_invalid_key_continues_witness:
  "(parse_args [(CHR ''l'', ''A''), (CHR ''r'', ''B''), (CHR ''c'', ''lic.json'')]
      \<lparr>localSN = [], remoteSN = [], licCfgPath = []\<rparr>
      = Some \<lparr>localSN = ''A'', remoteSN = ''B'', licCfgPath = ''lic.json''\<rparr>
    \<and> setup_calls \<lparr>localSN = ''A'', remoteSN = ''B'', licCfgPath = ''lic.json''\<rparr>
      = [Construct ''teleop'' ''A'' ''B'' ''lic.json'', Enable ''teleop''] @ Init ''teleop''
          # [SetLocalNullSpacePosture ''teleop'', SetRemoteNullSpacePosture ''teleop'',
             SetRemoteMaxWrench ''teleop''])
   \<and> main [(CHR ''l'', ''A''), (CHR ''r'', ''B''), (CHR ''c'', ''lic.json'')]
        (\<lambda>c. if c = Init ''teleop'' then Some ''init failed'' else None) []
       = (Some 1,
          banner \<lparr>localSN = ''A'', remoteSN = ''B'', licCfgPath = ''lic.json''\<rparr>
          @ [Call (Construct ''teleop'' ''A'' ''B'' ''lic.json''), Call (Enable ''teleop''),
             Call (Init ''teleop''), Print (LogError ''init failed'')])
   \<and> console_loop [(False, ''p'')] free_cmd session0
       = (free_cmd, setLocalAxisLockCmd free_cmd session0,
          LogWarn invalid_command_msg # status_lines free_cmd)"
proof -
  let ?rs = "[(CHR ''l'', ''A''), (CHR ''r'', ''B''), (CHR ''c'', ''lic.json'')]"
  let ?a = "\<lparr>localSN = ''A'', remoteSN = ''B'', licCfgPath = ''lic.json''\<rparr>"
  let ?sdk = "\<lambda>c. if c = Init ''teleop'' then Some ''init failed'' else None"
  let ?before = "[Construct ''teleop'' ''A'' ''B'' ''lic.json'', Enable ''teleop'']"
  let ?after = "[SetLocalNullSpacePosture ''teleop'', SetRemoteNullSpacePosture ''teleop'',
             SetRemoteMaxWrench ''teleop'']"
  have p: "parse_args ?rs \<lparr>localSN = [], remoteSN = [], licCfgPath = []\<rparr> = Some ?a"
    by simp
  have s: "setup_calls ?a = ?before @ Init ''teleop'' # ?after"
    by (simp add: setup_calls_def)
  have h1: "parse_args ?rs \<lparr>localSN = [], remoteSN = [], licCfgPath = []\<rparr> = Some ?a
    \<and> localSN ?a \<noteq> [] \<and> remoteSN ?a \<noteq> [] \<and> licCfgPath ?a \<noteq> []
    \<and> setup_calls ?a = ?before @ Init ''teleop'' # ?after
    \<and> (\<forall>b \<in> set ?before. ?sdk b = None) \<and> ?sdk (Init ''teleop'') = Some ''init failed''"
    using p s by simp
  have h2: "first_char ''p'' \<notin> set world_keys \<and> first_char ''p'' \<notin> set tcp_keys
      \<and> first_char ''p'' \<noteq> CHR ''m''"
    by (simp add: world_keys_def tcp_keys_def)
  note inst = setup_error_aborts_invalid_key_continues
      [where rs = ?rs and a = ?a and sdk = ?sdk and before = ?before
         and c = "Init ''teleop''" and after = ?after and what = "''init failed''"
         and reads = "[]" and userInput = "''p''" and rest = "[]" and cmd = free_cmd
         and teleop = session0]
  have m: "main ?rs ?sdk []
      = (Some 1, banner ?a @ map Call (?before @ [Init ''teleop'']) @ [Print (LogError ''init failed'')])"
    using inst [THEN conjunct1] h1 by (rule mp)
  have l: "console_loop ((False, ''p'') # []) free_cmd session0
      = (case console_loop [] free_cmd (setLocalAxisLockCmd free_cmd session0) of
           (cmd', teleop', out) \<Rightarrow>
             (cmd', teleop', LogWarn invalid_command_msg # status_lines free_cmd @ out))"
    using inst [THEN conjunct2] h2 by (rule mp)
  show ?thesis using p s m l by simp
qed

end
